theory Spec2Isabelle
  imports Main
begin

section \<open>Actor behaviors of \<^verbatim>\<open>packages/core/src/behavior.ts\<close>\<close>

text \<open>
  Every behavior of the source is a closure over a few mutable variables. The embedding
  makes the captured variables a record, each method a function from that record to the
  new record and the list of calls the method makes on its collaborators (the parent
  actor, observers, receivers, the nested interpreter), in the order the code makes them.
  Code that the host runs later (the continuations given to \<^verbatim>\<open>then\<close>, the closures handed
  to the wrapped callback or to the nested interpreter) is a function of its own, run by
  an action of the environment. The call of the wrapped callback and the calls of
  \<^verbatim>\<open>then\<close> are kept in the record (what the callback returned, the continuations waiting)
  rather than in the list of calls.

  \<^verbatim>\<open>'v\<close> is the type of payloads (event data, resolved values, failure reasons, machine
  states), \<^verbatim>\<open>'r\<close> the type of object references (actors, observers, receivers).
\<close>

subsection \<open>Signals, contexts, events\<close>

datatype LifecycleSignal = startSignal | stopSignal

record 'r ActorContext =
  self :: 'r
  name :: string

text \<open>
  Modelled from the spec: \<^verbatim>\<open>doneInvoke\<close>, \<^verbatim>\<open>error\<close> and \<^verbatim>\<open>actionTypes.update\<close> of
  \<^verbatim>\<open>./actions\<close> are not under src. A completion event carries the source name and
  a payload, a failure event the source name and the reason, an update event the state.
\<close>

datatype 'v EventObject =
    Event 'v
  | doneInvoke string "'v option"
  | error string 'v
  | update 'v

text \<open>
  Modelled from the spec: \<^verbatim>\<open>toSCXMLEvent\<close> and \<^verbatim>\<open>isSCXMLEvent\<close> of \<^verbatim>\<open>./utils\<close> are not
  under src. The envelope carries the payload and the origin; the helper tags a plain
  event with the origin it is given.
\<close>

datatype ('v, 'r) SCXMLEvent = SCXMLEvent (data: "'v EventObject") (origin: "'r option")

datatype ('v, 'r) AnyEvent = Plain "'v EventObject" | Envelope "('v, 'r) SCXMLEvent"

definition toSCXMLEvent :: "'v EventObject \<Rightarrow> 'r \<Rightarrow> ('v, 'r) SCXMLEvent" where
  "toSCXMLEvent e orig = SCXMLEvent e (Some orig)"

text \<open>\<^verbatim>\<open>isSCXMLEvent(event) ? event.data : event\<close>\<close>

fun plainEventOf :: "('v, 'r) AnyEvent \<Rightarrow> 'v EventObject" where
  "plainEventOf (Envelope e) = data e"
| "plainEventOf (Plain e) = e"

text \<open>
  Modelled from the spec: \<^verbatim>\<open>isPromiseLike\<close>, \<^verbatim>\<open>isObservable\<close> and \<^verbatim>\<open>isMachineNode\<close> of
  \<^verbatim>\<open>./utils\<close> are not under src (\<^verbatim>\<open>isFunction\<close> is Node's). They probe the shape of a
  dynamically typed value, so a value is the record of what the four probes answer on it.
  \<^verbatim>\<open>returns\<close> is the value a callable entity returns when the callback behavior invokes it.
\<close>

record JSValue =
  isPromiseLike :: bool
  isObservable :: bool
  isMachineNode :: bool
  isFunction :: bool

definition undefinedValue :: JSValue where
  "undefinedValue =
     \<lparr>isPromiseLike = False, isObservable = False, isMachineNode = False, isFunction = False\<rparr>"

record Spawnable = JSValue +
  returns :: JSValue

text \<open>An observer has a reference and optional \<^verbatim>\<open>next\<close>, \<^verbatim>\<open>error\<close>, \<^verbatim>\<open>complete\<close> callbacks.\<close>

datatype 'r Observer =
  Observer (ref: 'r) (hasNext: bool) (hasError: bool) (hasComplete: bool)

text \<open>The settlement of a deferred value.\<close>

datatype 'v Settlement = Resolved 'v | Rejected 'v

text \<open>
  The nested interpreter is known by the options it is constructed with
  (\<^verbatim>\<open>{...options, parent, id}\<close>).
\<close>

record InterpreterOptions =
  sync :: bool

datatype 'r Interpreter =
  Interpreter Spawnable "InterpreterOptions option" "'r option" string

text \<open>A subscription handle, and the two failures of the module.\<close>

datatype Unsubscribable = Unsubscribable

datatype JSError = TypeError | Error string

text \<open>The calls a behavior makes on its collaborators.\<close>

datatype ('v, 'r) Effect =
    Send 'r "('v, 'r) SCXMLEvent"
  | Receiver 'r "'v EventObject"
  | Dispose
  | NextCall "'r Observer" 'v
  | ErrorCall "'r Observer" 'v
  | CompleteCall "'r Observer"
  | SourceSubscribe
  | SourceSubscribeObserver "'r Observer"
  | SourceUnsubscribe
  | Interpret "'r Interpreter"
  | OnDone "'r Interpreter"
  | Subscribe "'r Interpreter"
  | SubscribeObserver "'r Interpreter" "'r Observer"
  | Start "'r Interpreter"
  | Stop "'r Interpreter"
  | ServiceSend "'r Interpreter" "('v, 'r) AnyEvent"
  | Unsubscribe "'r Interpreter"

text \<open>\<^verbatim>\<open>parent?.send(e)\<close>: one call when there is a parent, none otherwise.\<close>

fun parentSend :: "'r option \<Rightarrow> ('v, 'r) SCXMLEvent \<Rightarrow> ('v, 'r) Effect list" where
  "parentSend None e = []"
| "parentSend (Some p) e = [Send p e]"

text \<open>
  A JavaScript \<^verbatim>\<open>Set\<close> keeps its members in insertion order and ignores the insertion of
  a member it has.
\<close>

definition setAdd :: "'a \<Rightarrow> 'a list \<Rightarrow> 'a list" where
  "setAdd x xs = (if x \<in> set xs then xs else xs @ [x])"

definition setDelete :: "'a \<Rightarrow> 'a list \<Rightarrow> 'a list" where
  "setDelete x xs = removeAll x xs"

text \<open>Running a sequence of actions, collecting the calls made.\<close>

fun run :: "('s \<Rightarrow> 'a \<Rightarrow> 's \<times> 'e list) \<Rightarrow> 's \<Rightarrow> 'a list \<Rightarrow> 's \<times> 'e list" where
  "run step s [] = (s, [])"
| "run step s (a # as) =
     (case step s a of (s', out) \<Rightarrow>
        (case run step s' as of (s'', outs) \<Rightarrow> (s'', out @ outs)))"

subsection \<open>Callback behavior (\<^verbatim>\<open>createCallbackBehavior\<close>)\<close>

text \<open>
  The captured variables: the arguments \<^verbatim>\<open>callback\<close> and \<^verbatim>\<open>parent\<close>, and \<^verbatim>\<open>canceled\<close>,
  \<^verbatim>\<open>receivers\<close>, \<^verbatim>\<open>dispose\<close>. \<^verbatim>\<open>thens\<close> holds, for each \<^verbatim>\<open>dispose.then(...)\<close> made and not
  yet answered, the actor context its two continuations captured.
\<close>

record 'r CallbackState =
  callback :: Spawnable
  parent :: "'r option"
  canceled :: bool
  receivers :: "'r list"
  dispose :: JSValue
  thens :: "'r ActorContext list"

definition createCallbackBehavior :: "Spawnable \<Rightarrow> 'r option \<Rightarrow> 'r CallbackState" where
  "createCallbackBehavior cb p =
     \<lparr>callback = cb, parent = p, canceled = False, receivers = [],
      dispose = undefinedValue, thens = []\<rparr>"

definition callbackReceive ::
  "'r CallbackState \<Rightarrow> 'r ActorContext \<Rightarrow> ('v, 'r) AnyEvent
     \<Rightarrow> 'r CallbackState \<times> ('v, 'r) Effect list" where
  "callbackReceive s ctx event =
     (let plainEvent = plainEventOf event
      in (s, map (\<lambda>receiver. Receiver receiver plainEvent) (receivers s)))"

text \<open>The sender handed to the wrapped function at start (first argument of \<^verbatim>\<open>callback\<close>).\<close>

definition callbackSender ::
  "'r CallbackState \<Rightarrow> 'r ActorContext \<Rightarrow> 'v EventObject
     \<Rightarrow> 'r CallbackState \<times> ('v, 'r) Effect list" where
  "callbackSender s ctx e =
     (if canceled s then (s, [])
      else (s, parentSend (parent s) (toSCXMLEvent e (self ctx))))"

text \<open>The registrar handed to the wrapped function at start (second argument).\<close>

definition callbackRegistrar ::
  "'r CallbackState \<Rightarrow> 'r \<Rightarrow> 'r CallbackState \<times> ('v, 'r) Effect list" where
  "callbackRegistrar s newListener = (s\<lparr>receivers := setAdd newListener (receivers s)\<rparr>, [])"

text \<open>The two continuations given to \<^verbatim>\<open>dispose.then\<close>.\<close>

definition callbackResolved ::
  "'r CallbackState \<Rightarrow> 'r ActorContext \<Rightarrow> 'v \<Rightarrow> 'r CallbackState \<times> ('v, 'r) Effect list" where
  "callbackResolved s ctx resolved =
     (s\<lparr>canceled := True\<rparr>,
      parentSend (parent s) (toSCXMLEvent (doneInvoke (name ctx) (Some resolved)) (self ctx)))"

definition callbackRejected ::
  "'r CallbackState \<Rightarrow> 'r ActorContext \<Rightarrow> 'v \<Rightarrow> 'r CallbackState \<times> ('v, 'r) Effect list" where
  "callbackRejected s ctx errorData =
     (s\<lparr>canceled := True\<rparr>,
      parentSend (parent s) (toSCXMLEvent (error (name ctx) errorData) (self ctx)))"

definition callbackReceiveSignal ::
  "'r CallbackState \<Rightarrow> 'r ActorContext \<Rightarrow> LifecycleSignal
     \<Rightarrow> 'r CallbackState \<times> ('v, 'r) Effect list" where
  "callbackReceiveSignal s ctx signal =
     (let s1 = (if signal = startSignal
                then (let s0 = s\<lparr>dispose := returns (callback s)\<rparr>
                      in if isPromiseLike (dispose s0) then s0\<lparr>thens := thens s0 @ [ctx]\<rparr>
                         else s0)
                else s)
      in if signal = stopSignal
         then (s1\<lparr>canceled := True\<rparr>, if isFunction (dispose s1) then [Dispose] else [])
         else (s1, []))"

text \<open>
  What can happen to a callback behavior: the supervisor calls \<^verbatim>\<open>receiveSignal\<close> or
  \<^verbatim>\<open>receive\<close>; the wrapped function calls the sender or the registrar it was handed
  (while it runs, or later); the host answers the oldest pending \<^verbatim>\<open>then\<close> with the
  settlement of the deferred value, running one of its two continuations, once.
\<close>

datatype ('v, 'r) CallbackAction =
    CbSignal "'r ActorContext" LifecycleSignal
  | CbReceive "'r ActorContext" "('v, 'r) AnyEvent"
  | CbSender "'r ActorContext" "'v EventObject"
  | CbRegistrar 'r
  | CbSettle "'v Settlement"

fun callbackStep ::
  "'r CallbackState \<Rightarrow> ('v, 'r) CallbackAction \<Rightarrow> 'r CallbackState \<times> ('v, 'r) Effect list" where
  "callbackStep s (CbSignal ctx signal) = callbackReceiveSignal s ctx signal"
| "callbackStep s (CbReceive ctx event) = callbackReceive s ctx event"
| "callbackStep s (CbSender ctx e) = callbackSender s ctx e"
| "callbackStep s (CbRegistrar r) = callbackRegistrar s r"
| "callbackStep s (CbSettle outcome) =
     (case thens s of
        [] \<Rightarrow> (s, [])
      | ctx # rest \<Rightarrow>
          (case outcome of
             Resolved v \<Rightarrow> callbackResolved (s\<lparr>thens := rest\<rparr>) ctx v
           | Rejected v \<Rightarrow> callbackRejected (s\<lparr>thens := rest\<rparr>) ctx v))"

text \<open>Kinds of callback action.\<close>

fun isCbStop :: "('v, 'r) CallbackAction \<Rightarrow> bool" where
  "isCbStop (CbSignal _ stopSignal) = True"
| "isCbStop _ = False"

fun isCbSettle :: "('v, 'r) CallbackAction \<Rightarrow> bool" where
  "isCbSettle (CbSettle _) = True"
| "isCbSettle _ = False"

subsection \<open>Promise behavior (\<^verbatim>\<open>createPromiseBehavior\<close>)\<close>

text \<open>
  The captured variables: the arguments \<^verbatim>\<open>promise\<close> and \<^verbatim>\<open>parent\<close>, and \<^verbatim>\<open>canceled\<close>,
  \<^verbatim>\<open>observers\<close>. \<^verbatim>\<open>thens\<close> holds, for each \<^verbatim>\<open>resolvedPromise.then(...)\<close> made and not
  yet answered, the actor context its two continuations captured.
\<close>

record 'r PromiseState =
  promise :: Spawnable
  parent :: "'r option"
  canceled :: bool
  observers :: "'r Observer list"
  thens :: "'r ActorContext list"

definition createPromiseBehavior :: "Spawnable \<Rightarrow> 'r option \<Rightarrow> 'r PromiseState" where
  "createPromiseBehavior pr p =
     \<lparr>promise = pr, parent = p, canceled = False, observers = [], thens = []\<rparr>"

definition promiseReceive ::
  "'r PromiseState \<Rightarrow> 'r ActorContext \<Rightarrow> ('v, 'r) AnyEvent
     \<Rightarrow> 'r PromiseState \<times> ('v, 'r) Effect list" where
  "promiseReceive s ctx event = (s, [])"

text \<open>\<^verbatim>\<open>observer.next?.(response); observer.complete?.()\<close> and its failure twin.\<close>

definition notifyNext :: "'v \<Rightarrow> 'r Observer \<Rightarrow> ('v, 'r) Effect list" where
  "notifyNext response observer =
     (if hasNext observer then [NextCall observer response] else []) @
     (if hasComplete observer then [CompleteCall observer] else [])"

definition notifyError :: "'v \<Rightarrow> 'r Observer \<Rightarrow> ('v, 'r) Effect list" where
  "notifyError errorData observer =
     (if hasError observer then [ErrorCall observer errorData] else []) @
     (if hasComplete observer then [CompleteCall observer] else [])"

text \<open>
  The continuations call the parent and the observers, and whoever is called can call the
  behavior back before it returns (an observer's \<^verbatim>\<open>next\<close> that unsubscribes another
  observer, a parent that stops the actor on \<^verbatim>\<open>done\<close>). A running continuation is
  therefore a frame beside the captured variables: its settlement, the calls it still
  owes the observer it is visiting (\<^verbatim>\<open>complete\<close> after \<^verbatim>\<open>next\<close>), and the observers that
  \<^verbatim>\<open>observers.forEach\<close> has still to visit. \<^verbatim>\<open>Set.prototype.forEach\<close> walks the live set:
  a member deleted before its turn is not visited, a member added during the walk is
  visited at the end, also when it was visited and deleted before.
\<close>

datatype ('v, 'r) Frame =
  Frame (outcome: "'v Settlement") (owed: "('v, 'r) Effect list") (todo: "'r Observer list")

type_synonym ('v, 'r) PromiseRun = "'r PromiseState \<times> ('v, 'r) Frame option"

fun mapTodo ::
  "('r Observer list \<Rightarrow> 'r Observer list) \<Rightarrow> ('v, 'r) Frame option \<Rightarrow> ('v, 'r) Frame option" where
  "mapTodo f None = None"
| "mapTodo f (Some (Frame oc ow td)) = Some (Frame oc ow (f td))"

fun notifyOf :: "'v Settlement \<Rightarrow> 'r Observer \<Rightarrow> ('v, 'r) Effect list" where
  "notifyOf (Resolved response) observer = notifyNext response observer"
| "notifyOf (Rejected errorData) observer = notifyError errorData observer"

text \<open>
  The two continuations given to \<^verbatim>\<open>resolvedPromise.then\<close>, up to the return of
  \<^verbatim>\<open>parent?.send\<close>: the test of \<^verbatim>\<open>canceled\<close>, the call of the parent, and the frame left for
  \<^verbatim>\<open>observers.forEach\<close>.
\<close>

definition promiseResolved ::
  "'r PromiseState \<Rightarrow> 'r ActorContext \<Rightarrow> 'v \<Rightarrow> ('v, 'r) PromiseRun \<times> ('v, 'r) Effect list" where
  "promiseResolved s ctx response =
     (if \<not> canceled s
      then ((s, Some (Frame (Resolved response) [] (observers s))),
            parentSend (parent s)
              (toSCXMLEvent (doneInvoke (name ctx) (Some response)) (self ctx)))
      else ((s, None), []))"

definition promiseRejected ::
  "'r PromiseState \<Rightarrow> 'r ActorContext \<Rightarrow> 'v \<Rightarrow> ('v, 'r) PromiseRun \<times> ('v, 'r) Effect list" where
  "promiseRejected s ctx errorData =
     (if \<not> canceled s
      then ((s, Some (Frame (Rejected errorData) [] (observers s))),
            parentSend (parent s) (toSCXMLEvent (error (name ctx) errorData) (self ctx)))
      else ((s, None), []))"

text \<open>
  The call just made returns and the running continuation goes on: it makes the next call
  it owes the observer it is visiting, or visits the next observer and makes the first
  call of \<^verbatim>\<open>observer.next?.(...); observer.complete?.()\<close> on it, or ends.
\<close>

fun promiseContinue :: "('v, 'r) PromiseRun \<Rightarrow> ('v, 'r) PromiseRun \<times> ('v, 'r) Effect list" where
  "promiseContinue (s, None) = ((s, None), [])"
| "promiseContinue (s, Some (Frame oc (c # cs) td)) = ((s, Some (Frame oc cs td)), [c])"
| "promiseContinue (s, Some (Frame oc [] [])) = ((s, None), [])"
| "promiseContinue (s, Some (Frame oc [] (observer # rest))) =
     (case notifyOf oc observer of
        [] \<Rightarrow> ((s, Some (Frame oc [] rest)), [])
      | c # cs \<Rightarrow> ((s, Some (Frame oc cs rest)), [c]))"

definition promiseReceiveSignal ::
  "'r PromiseState \<Rightarrow> 'r ActorContext \<Rightarrow> LifecycleSignal
     \<Rightarrow> 'r PromiseState \<times> ('v, 'r) Effect list" where
  "promiseReceiveSignal s ctx signal =
     (case signal of
        startSignal \<Rightarrow> (s\<lparr>thens := thens s @ [ctx]\<rparr>, [])
      | stopSignal \<Rightarrow> (s\<lparr>canceled := True, observers := []\<rparr>, []))"

definition promiseSubscribe ::
  "'r PromiseState \<Rightarrow> 'r Observer \<Rightarrow> 'r PromiseState \<times> ('v, 'r) Effect list" where
  "promiseSubscribe s observer = (s\<lparr>observers := setAdd observer (observers s)\<rparr>, [])"

text \<open>The \<^verbatim>\<open>unsubscribe\<close> of the handle that \<^verbatim>\<open>subscribe(observer)\<close> returned.\<close>

definition promiseUnsubscribe ::
  "'r PromiseState \<Rightarrow> 'r Observer \<Rightarrow> 'r PromiseState \<times> ('v, 'r) Effect list" where
  "promiseUnsubscribe s observer = (s\<lparr>observers := setDelete observer (observers s)\<rparr>, [])"

text \<open>
  What can happen to a promise behavior: the supervisor calls \<^verbatim>\<open>receiveSignal\<close>,
  \<^verbatim>\<open>receive\<close> or \<^verbatim>\<open>subscribe\<close>; a subscriber calls its \<^verbatim>\<open>unsubscribe\<close>; the host answers
  the oldest pending \<^verbatim>\<open>then\<close> with the settlement of the wrapped value, running one of its
  two continuations, once, and never while another continuation runs; a call made by the
  running continuation returns (\<open>PrContinue\<close>). The actions between the start of a
  continuation and its end are the calls made on the behavior from inside the parent or
  the observer just called. Every call is taken to return: a callback that throws is not
  modelled.
\<close>

datatype ('v, 'r) PromiseAction =
    PrSignal "'r ActorContext" LifecycleSignal
  | PrReceive "'r ActorContext" "('v, 'r) AnyEvent"
  | PrSubscribe "'r Observer"
  | PrUnsubscribe "'r Observer"
  | PrSettle "'v Settlement"
  | PrContinue

fun promiseStep ::
  "('v, 'r) PromiseRun \<Rightarrow> ('v, 'r) PromiseAction \<Rightarrow> ('v, 'r) PromiseRun \<times> ('v, 'r) Effect list" where
  "promiseStep (s, fr) (PrSignal ctx signal) =
     (case promiseReceiveSignal s ctx signal of
        (s', out) \<Rightarrow>
          ((s', case signal of startSignal \<Rightarrow> fr | stopSignal \<Rightarrow> mapTodo (\<lambda>td. []) fr), out))"
| "promiseStep (s, fr) (PrReceive ctx event) =
     (case promiseReceive s ctx event of (s', out) \<Rightarrow> ((s', fr), out))"
| "promiseStep (s, fr) (PrSubscribe observer) =
     (case promiseSubscribe s observer of
        (s', out) \<Rightarrow>
          ((s', if observer \<in> set (observers s) then fr
                else mapTodo (\<lambda>td. td @ [observer]) fr), out))"
| "promiseStep (s, fr) (PrUnsubscribe observer) =
     (case promiseUnsubscribe s observer of
        (s', out) \<Rightarrow> ((s', mapTodo (removeAll observer) fr), out))"
| "promiseStep (s, fr) (PrSettle settlement) =
     (case fr of
        Some running \<Rightarrow> ((s, fr), [])
      | None \<Rightarrow>
          (case thens s of
             [] \<Rightarrow> ((s, fr), [])
           | ctx # rest \<Rightarrow>
               (case settlement of
                  Resolved v \<Rightarrow> promiseResolved (s\<lparr>thens := rest\<rparr>) ctx v
                | Rejected v \<Rightarrow> promiseRejected (s\<lparr>thens := rest\<rparr>) ctx v)))"
| "promiseStep (s, fr) PrContinue = promiseContinue (s, fr)"


fun isPrStop :: "('v, 'r) PromiseAction \<Rightarrow> bool" where
  "isPrStop (PrSignal _ stopSignal) = True"
| "isPrStop _ = False"

fun isPrSettle :: "('v, 'r) PromiseAction \<Rightarrow> bool" where
  "isPrSettle (PrSettle _) = True"
| "isPrSettle _ = False"






subsection \<open>Observable behavior (\<^verbatim>\<open>createObservableBehavior\<close>)\<close>

record 'r ObservableState =
  observable :: Spawnable
  parent :: "'r option"
  subscription :: "Unsubscribable option"

definition createObservableBehavior :: "Spawnable \<Rightarrow> 'r option \<Rightarrow> 'r ObservableState" where
  "createObservableBehavior ob p = \<lparr>observable = ob, parent = p, subscription = None\<rparr>"

text \<open>The three handlers given to \<^verbatim>\<open>observable.subscribe\<close> at start.\<close>

definition observableValue ::
  "'r ObservableState \<Rightarrow> 'r ActorContext \<Rightarrow> 'v \<Rightarrow> 'r ObservableState \<times> ('v, 'r) Effect list" where
  "observableValue s ctx v = (s, parentSend (parent s) (toSCXMLEvent (Event v) (self ctx)))"

definition observableError ::
  "'r ObservableState \<Rightarrow> 'r ActorContext \<Rightarrow> 'v \<Rightarrow> 'r ObservableState \<times> ('v, 'r) Effect list" where
  "observableError s ctx err =
     (s, parentSend (parent s) (toSCXMLEvent (error (name ctx) err) (self ctx)))"

definition observableComplete ::
  "'r ObservableState \<Rightarrow> 'r ActorContext \<Rightarrow> 'r ObservableState \<times> ('v, 'r) Effect list" where
  "observableComplete s ctx =
     (s, parentSend (parent s) (toSCXMLEvent (doneInvoke (name ctx) None) (self ctx)))"

definition observableReceiveSignal ::
  "'r ObservableState \<Rightarrow> 'r ActorContext \<Rightarrow> LifecycleSignal
     \<Rightarrow> 'r ObservableState \<times> ('v, 'r) Effect list" where
  "observableReceiveSignal s ctx signal =
     (if signal = startSignal then (s\<lparr>subscription := Some Unsubscribable\<rparr>, [SourceSubscribe])
      else if signal = stopSignal
      then (s, if subscription s \<noteq> None then [SourceUnsubscribe] else [])
      else (s, []))"

definition observableReceive ::
  "'r ObservableState \<Rightarrow> 'r ActorContext \<Rightarrow> ('v, 'r) AnyEvent
     \<Rightarrow> 'r ObservableState \<times> ('v, 'r) Effect list" where
  "observableReceive s ctx event = (s, [])"

definition observableSubscribe ::
  "'r ObservableState \<Rightarrow> 'r Observer \<Rightarrow> 'r ObservableState \<times> ('v, 'r) Effect list" where
  "observableSubscribe s observer = (s, [SourceSubscribeObserver observer])"

subsection \<open>Machine behavior (\<^verbatim>\<open>createMachineBehavior\<close>)\<close>

text \<open>
  The captured variables: the arguments \<^verbatim>\<open>machine\<close>, \<^verbatim>\<open>parent\<close>, \<^verbatim>\<open>options\<close>, and
  \<^verbatim>\<open>service\<close>, \<^verbatim>\<open>subscription\<close>, both unassigned (\<open>None\<close>) until a start.
  \<^verbatim>\<open>doneHooks\<close> and \<^verbatim>\<open>listeners\<close> hold the actor contexts captured by the closures that the
  behavior has given to \<^verbatim>\<open>service.onDone\<close> and to \<^verbatim>\<open>service.subscribe\<close>: the closures the
  nested interpreters can call. The subscription is known by the interpreter it is on.
\<close>

record 'r MachineState =
  machine :: Spawnable
  parent :: "'r option"
  options :: "InterpreterOptions option"
  service :: "'r Interpreter option"
  subscription :: "'r Interpreter option"
  doneHooks :: "'r ActorContext list"
  listeners :: "'r ActorContext list"

definition createMachineBehavior ::
  "Spawnable \<Rightarrow> 'r option \<Rightarrow> InterpreterOptions option \<Rightarrow> 'r MachineState" where
  "createMachineBehavior m p os =
     \<lparr>machine = m, parent = p, options = os, service = None, subscription = None,
      doneHooks = [], listeners = []\<rparr>"

text \<open>\<^verbatim>\<open>options?.sync\<close>\<close>

fun optionsSync :: "InterpreterOptions option \<Rightarrow> bool" where
  "optionsSync None = False"
| "optionsSync (Some os) = sync os"

text \<open>The closure given to \<^verbatim>\<open>service.onDone\<close> and the one given to \<^verbatim>\<open>service.subscribe\<close>.\<close>

definition machineDone ::
  "'r MachineState \<Rightarrow> 'r ActorContext \<Rightarrow> 'v EventObject
     \<Rightarrow> 'r MachineState \<times> ('v, 'r) Effect list" where
  "machineDone s ctx doneEvent = (s, parentSend (parent s) (toSCXMLEvent doneEvent (self ctx)))"

definition machineListener ::
  "'r MachineState \<Rightarrow> 'r ActorContext \<Rightarrow> 'v \<Rightarrow> 'r MachineState \<times> ('v, 'r) Effect list" where
  "machineListener s ctx state =
     (s, parentSend (parent s) (toSCXMLEvent (update state) (self ctx)))"

definition machineReceiveSignal ::
  "'r MachineState \<Rightarrow> 'r ActorContext \<Rightarrow> LifecycleSignal
     \<Rightarrow> JSError + 'r MachineState \<times> ('v, 'r) Effect list" where
  "machineReceiveSignal s ctx signal =
     (if signal = startSignal
      then (let svc = Interpreter (machine s) (options s) (parent s) (name ctx);
                s1 = s\<lparr>service := Some svc, doneHooks := doneHooks s @ [ctx]\<rparr>
            in if optionsSync (options s)
               then Inr (s1\<lparr>subscription := Some svc, listeners := listeners s1 @ [ctx]\<rparr>,
                         [Interpret svc, OnDone svc, Subscribe svc, Start svc])
               else Inr (s1, [Interpret svc, OnDone svc, Start svc]))
      else if signal = stopSignal
      then (case service s of
              None \<Rightarrow> Inl TypeError
            | Some svc \<Rightarrow>
                Inr (s, Stop svc #
                        (case subscription s of None \<Rightarrow> [] | Some sub \<Rightarrow> [Unsubscribe sub])))
      else Inr (s, []))"

definition machineReceive ::
  "'r MachineState \<Rightarrow> 'r ActorContext \<Rightarrow> ('v, 'r) AnyEvent
     \<Rightarrow> JSError + 'r MachineState \<times> ('v, 'r) Effect list" where
  "machineReceive s ctx event =
     (case service s of
        None \<Rightarrow> Inl TypeError
      | Some svc \<Rightarrow> Inr (s, [ServiceSend svc event]))"

text \<open>
  \<^verbatim>\<open>service?.subscribe(observer)\<close>: the third component is the value returned, the
  interpreter's handle or \<^verbatim>\<open>undefined\<close> (\<open>None\<close>).
\<close>

definition machineSubscribe ::
  "'r MachineState \<Rightarrow> 'r Observer
     \<Rightarrow> JSError + 'r MachineState \<times> ('v, 'r) Effect list \<times> Unsubscribable option" where
  "machineSubscribe s observer =
     (case service s of
        None \<Rightarrow> Inr (s, [], None)
      | Some svc \<Rightarrow> Inr (s, [SubscribeObserver svc observer], Some Unsubscribable))"

text \<open>
  What can happen to a machine behavior: the supervisor calls \<^verbatim>\<open>receiveSignal\<close> or
  \<^verbatim>\<open>receive\<close>; a nested interpreter takes a transition and calls the listeners it was
  given, or reaches its final state and calls the completion hooks it was given with its
  terminal event (a completion event, see the spec's nested machine relay). Nothing is
  assumed of when an interpreter calls them, not even that a stopped one is silent. A
  call of the supervisor that throws has made no call and no assignment before.
\<close>

datatype ('v, 'r) MachineAction =
    McSignal "'r ActorContext" LifecycleSignal
  | McReceive "'r ActorContext" "('v, 'r) AnyEvent"
  | McTransition 'v
  | McDone string "'v option"

fun caught :: "'s \<Rightarrow> JSError + 's \<times> 'e list \<Rightarrow> 's \<times> 'e list" where
  "caught s (Inl _) = (s, [])"
| "caught s (Inr r) = r"

fun machineStep ::
  "'r MachineState \<Rightarrow> ('v, 'r) MachineAction \<Rightarrow> 'r MachineState \<times> ('v, 'r) Effect list" where
  "machineStep s (McSignal ctx signal) = caught s (machineReceiveSignal s ctx signal)"
| "machineStep s (McReceive ctx event) = caught s (machineReceive s ctx event)"
| "machineStep s (McTransition state) =
     (s, concat (map (\<lambda>ctx. snd (machineListener s ctx state)) (listeners s)))"
| "machineStep s (McDone src output) =
     (s, concat (map (\<lambda>ctx. snd (machineDone s ctx (doneInvoke src output))) (doneHooks s)))"

fun isMcStart :: "('v, 'r) MachineAction \<Rightarrow> bool" where
  "isMcStart (McSignal _ startSignal) = True"
| "isMcStart _ = False"

text \<open>An \<^verbatim>\<open>update\<close> event sent to the parent.\<close>

fun isUpdateSend :: "('v, 'r) Effect \<Rightarrow> bool" where
  "isUpdateSend (Send _ (SCXMLEvent (update _) _)) = True"
| "isUpdateSend _ = False"

subsection \<open>Service behavior (\<^verbatim>\<open>createServiceBehavior\<close>)\<close>

record 'r ServiceState =
  service :: "'r Interpreter"







definition serviceSubscribe ::
  "'r ServiceState \<Rightarrow> 'r Observer \<Rightarrow> 'r ServiceState \<times> ('v, 'r) Effect list" where
  "serviceSubscribe s observer = (s, [SubscribeObserver (service s) observer])"




subsection \<open>The dispatch factory (\<^verbatim>\<open>createBehaviorFrom\<close>)\<close>

datatype 'r Behavior =
    PromiseBehavior "'r PromiseState"
  | ObservableBehavior "'r ObservableState"
  | MachineBehavior "'r MachineState"
  | CallbackBehavior "'r CallbackState"
  | ServiceBehavior "'r ServiceState"

definition createBehaviorFrom :: "Spawnable \<Rightarrow> 'r option \<Rightarrow> JSError + 'r Behavior" where
  "createBehaviorFrom entity p =
     (if isPromiseLike entity then Inr (PromiseBehavior (createPromiseBehavior entity p))
      else if isObservable entity then Inr (ObservableBehavior (createObservableBehavior entity p))
      else if isMachineNode entity then Inr (MachineBehavior (createMachineBehavior entity p None))
      else if isFunction entity then Inr (CallbackBehavior (createCallbackBehavior entity p))
      else Inl (Error ''Unable to create behavior from entity''))"

subsection \<open>Sample values\<close>

text \<open>Values the statements below are evaluated at.\<close>

definition child :: "nat ActorContext" where
  "child = \<lparr>self = 1, name = ''child''\<rparr>"

definition aDeferred :: JSValue where
  "aDeferred =
     \<lparr>isPromiseLike = True, isObservable = False, isMachineNode = False, isFunction = False\<rparr>"

definition aPromise :: Spawnable where
  "aPromise =
     \<lparr>isPromiseLike = True, isObservable = False, isMachineNode = False, isFunction = False,
      returns = undefinedValue\<rparr>"

definition anAsyncCallback :: Spawnable where
  "anAsyncCallback =
     \<lparr>isPromiseLike = False, isObservable = False, isMachineNode = False, isFunction = True,
      returns = aDeferred\<rparr>"

definition watcher :: "nat Observer" where
  "watcher = Observer 7 True True True"


definition aThenableStream :: Spawnable where
  "aThenableStream =
     \<lparr>isPromiseLike = True, isObservable = True, isMachineNode = False, isFunction = False,
      returns = undefinedValue\<rparr>"

definition aMachine :: Spawnable where
  "aMachine =
     \<lparr>isPromiseLike = False, isObservable = False, isMachineNode = True, isFunction = False,
      returns = undefinedValue\<rparr>"


definition aNumber :: Spawnable where
  "aNumber =
     \<lparr>isPromiseLike = False, isObservable = False, isMachineNode = False, isFunction = False,
      returns = undefinedValue\<rparr>"

section \<open>Properties\<close>

subsection \<open>Runs\<close>




lemma fst_run_Cons: "fst (run step s (a # as)) = fst (run step (fst (step s a)) as)"
  by (simp split: prod.splits)

lemma snd_run_Cons:
  "snd (run step s (a # as)) = snd (step s a) @ snd (run step (fst (step s a)) as)"
  by (simp split: prod.splits)

subsection \<open>The promise behavior, step by step\<close>



lemma promiseContinue_vars: "fst (fst (promiseContinue r)) = fst r"
  by (cases r rule: promiseContinue.cases) (auto split: list.splits)

lemma promiseContinue_idle: "promiseContinue (s, None) = ((s, None), [])"
  by simp




lemma promiseStep_vars:
  "fst (fst (promiseStep (s, fr) a)) =
     (case a of
        PrSignal ctx startSignal \<Rightarrow> s\<lparr>PromiseState.thens := PromiseState.thens s @ [ctx]\<rparr>
      | PrSignal ctx stopSignal \<Rightarrow> s\<lparr>PromiseState.canceled := True, observers := []\<rparr>
      | PrSubscribe ob \<Rightarrow> s\<lparr>observers := setAdd ob (observers s)\<rparr>
      | PrUnsubscribe ob \<Rightarrow> s\<lparr>observers := setDelete ob (observers s)\<rparr>
      | PrSettle st \<Rightarrow>
          (if fr = None \<and> PromiseState.thens s \<noteq> []
           then s\<lparr>PromiseState.thens := tl (PromiseState.thens s)\<rparr> else s)
      | _ \<Rightarrow> s)"
  by (cases a)
     (auto simp: promiseReceive_def promiseSubscribe_def promiseUnsubscribe_def
                 promiseResolved_def promiseRejected_def promiseReceiveSignal_def
                 promiseContinue_vars
           split: list.splits Settlement.splits LifecycleSignal.splits option.splits)



lemma promiseStep_canceled_iff:
  "PromiseState.canceled (fst (fst (promiseStep r a))) =
     (PromiseState.canceled (fst r) \<or> isPrStop a)"
  by (cases r; cases a)
     (auto simp: promiseStep_vars simp del: promiseStep.simps split: LifecycleSignal.splits)




lemma promise_run_canceled_iff:
  "PromiseState.canceled (fst (fst (run promiseStep r as))) =
     (PromiseState.canceled (fst r) \<or> (\<exists>a \<in> set as. isPrStop a))"
  by (induction as arbitrary: r)
     (auto simp: fst_run_Cons promiseStep_canceled_iff simp del: run.simps(2))


text \<open>
  With no continuation running, only a settlement makes calls or opens a frame; only a
  start or a settlement changes \<^verbatim>\<open>thens\<close>.
\<close>

lemma promiseStep_idle:
  "snd r = None \<Longrightarrow> \<not> isPrSettle a \<Longrightarrow>
     snd (fst (promiseStep r a)) = None \<and> snd (promiseStep r a) = []"
  by (cases r; cases a)
     (auto simp: promiseReceive_def promiseSubscribe_def promiseUnsubscribe_def
                 promiseReceiveSignal_def split: LifecycleSignal.splits)












subsection \<open>Cancellation\<close>

lemma promiseStep_canceled:
  assumes "PromiseState.canceled (fst r)" and "snd r = None"
  shows "PromiseState.canceled (fst (fst (promiseStep r a))) \<and>
         snd (fst (promiseStep r a)) = None \<and> snd (promiseStep r a) = []"
proof (cases "isPrSettle a")
  case True
  then obtain st where "a = PrSettle st" by (cases a) auto
  with assms show ?thesis
    by (cases r)
       (auto simp: promiseResolved_def promiseRejected_def
             split: list.splits Settlement.splits)
next
  case False
  from promiseStep_idle[OF assms(2) False] assms(1) show ?thesis
    by (simp add: promiseStep_canceled_iff)
qed

lemma promise_run_canceled:
  "PromiseState.canceled (fst r) \<Longrightarrow> snd r = None \<Longrightarrow> snd (run promiseStep r as) = []"
proof (induction as arbitrary: r)
  case Nil
  then show ?case by simp
next
  case (Cons a as)
  from promiseStep_canceled[OF Cons.prems, of a]
  have c: "PromiseState.canceled (fst (fst (promiseStep r a)))"
    and f: "snd (fst (promiseStep r a)) = None" and o: "snd (promiseStep r a) = []"
    by auto
  from Cons.IH[OF c f] o show ?case
    by (simp add: snd_run_Cons del: run.simps(2))
qed

text \<open>
  Claim C1, at the input where the code departs from it. A callback behavior whose wrapped
  function returns a deferred value is started, then stopped, and then the deferred value
  resolves with 42: the success continuation does not look at \<^verbatim>\<open>canceled\<close>, and the
  parent (actor 0) is sent the \<^verbatim>\<open>done\<close> event after the stop.
\<close>

theorem callback_sends_after_stop:
  "run callbackStep (createCallbackBehavior anAsyncCallback (Some 0))
     [CbSignal child startSignal, CbSignal child stopSignal]
   = (\<lparr>callback = anAsyncCallback, parent = Some (0::nat), canceled = True, receivers = [],
       dispose = aDeferred, thens = [child]\<rparr>, []) \<and>
   snd (run callbackStep (createCallbackBehavior anAsyncCallback (Some 0))
          [CbSignal child startSignal, CbSignal child stopSignal, CbSettle (Resolved (42::nat))])
   = [Send 0 (SCXMLEvent (doneInvoke ''child'' (Some 42)) (Some 1))]"
  by (simp add: createCallbackBehavior_def callbackReceiveSignal_def callbackResolved_def
        toSCXMLEvent_def anAsyncCallback_def aDeferred_def child_def Let_def)

text \<open>
  Claim C2. Once a promise behavior, whatever its variables hold, has processed
  \<^verbatim>\<open>receiveSignal(stop)\<close> with no continuation running (before the wrapped value
  settles), nothing that happens later makes it call anyone: when the wrapped value
  resolves or rejects after the stop, no \<^verbatim>\<open>done\<close> or \<^verbatim>\<open>error\<close> event is sent to the parent
  and no observer is notified, whoever subscribes in between.
\<close>

theorem promise_stop_suppresses_settlement:
  "snd (run promiseStep (s, None) (PrSignal ctx stopSignal # later))
     = ([] :: ('v, 'r) Effect list)"
proof -
  let ?stop = "PrSignal ctx stopSignal :: ('v, 'r) PromiseAction"
  let ?r = "(s, None) :: ('v, 'r) PromiseRun"
  have c: "PromiseState.canceled (fst (fst (promiseStep ?r ?stop)))"
    by (simp add: promiseReceiveSignal_def)
  have f: "snd (fst (promiseStep ?r ?stop)) = None"
    by (simp add: promiseReceiveSignal_def)
  have o: "snd (promiseStep ?r ?stop) = ([] :: ('v, 'r) Effect list)"
    by (simp add: promiseReceiveSignal_def)
  show ?thesis
    unfolding snd_run_Cons o using promise_run_canceled[OF c f] by simp
qed

lemma callbackStep_canceled_iff:
  "CallbackState.canceled (fst (callbackStep s a)) =
     (CallbackState.canceled s \<or> isCbStop a \<or> (isCbSettle a \<and> CallbackState.thens s \<noteq> []))"
proof (cases a)
  case (CbSignal ctx signal)
  then show ?thesis
    by (cases signal) (simp_all add: callbackReceiveSignal_def Let_def)
next
  case (CbSettle outcome)
  then show ?thesis
    by (cases outcome)
       (simp_all add: callbackResolved_def callbackRejected_def split: list.splits)
qed (simp_all add: callbackReceive_def callbackSender_def callbackRegistrar_def)

lemma callback_run_canceled_mono:
  "CallbackState.canceled s \<Longrightarrow> CallbackState.canceled (fst (run callbackStep s as))"
  by (induction as arbitrary: s)
     (simp_all add: fst_run_Cons callbackStep_canceled_iff del: run.simps(2) callbackStep.simps)

text \<open>
  Claim C3, as stated, fails on the promise behavior: started, its value resolved, the
  \<^verbatim>\<open>done\<close> event sent, the continuation over, and \<^verbatim>\<open>canceled\<close> is still false. Nothing in
  \<^verbatim>\<open>createPromiseBehavior\<close> assigns the flag at settlement.
\<close>

theorem promise_settles_without_setting_flag:
  "run promiseStep (createPromiseBehavior aPromise (Some 0), None)
     [PrSignal child startSignal, PrSettle (Resolved (42::nat)), PrContinue]
   = ((\<lparr>promise = aPromise, parent = Some (0::nat), canceled = False, observers = [],
        thens = []\<rparr>, None),
      [Send 0 (SCXMLEvent (doneInvoke ''child'' (Some 42)) (Some 1))])"
  by (simp add: createPromiseBehavior_def promiseReceiveSignal_def promiseResolved_def
        toSCXMLEvent_def child_def)

text \<open>
  Claim C3, amended. In both behaviors the flag is false at construction and, once true,
  stays true. In the callback behavior a step makes it true exactly when the step is a
  \<^verbatim>\<open>receiveSignal(stop)\<close> or runs a continuation of the returned deferred value (success
  or error). In the promise behavior a step makes it true exactly when the step is a
  \<^verbatim>\<open>receiveSignal(stop)\<close>: settlement of the wrapped value leaves the flag as it was, and
  after any run the flag is true exactly if the run had a stop in it.
\<close>

theorem cancellation_flag_set_on_stop_or_callback_settlement:
  "\<not> CallbackState.canceled (createCallbackBehavior cb p) \<and>
   \<not> PromiseState.canceled (createPromiseBehavior pr p) \<and>
   CallbackState.canceled (fst (callbackStep cs ca)) =
     (CallbackState.canceled cs \<or> isCbStop ca \<or>
      (isCbSettle ca \<and> CallbackState.thens cs \<noteq> [])) \<and>
   PromiseState.canceled (fst (fst (promiseStep (ps, fr) pa))) =
     (PromiseState.canceled ps \<or> isPrStop pa) \<and>
   (CallbackState.canceled cs \<longrightarrow> CallbackState.canceled (fst (run callbackStep cs cas))) \<and>
   PromiseState.canceled (fst (fst (run promiseStep (createPromiseBehavior pr p, fr) pas))) =
     (\<exists>a \<in> set pas. isPrStop a)"
  by (simp add: callbackStep_canceled_iff promiseStep_canceled_iff callback_run_canceled_mono
        promise_run_canceled_iff createCallbackBehavior_def createPromiseBehavior_def
        del: callbackStep.simps promiseStep.simps)

theorem cancellation_flag_set_on_stop_or_callback_settlement_witness:
  "CallbackState.canceled
     (fst (callbackStep
             (fst (callbackStep (createCallbackBehavior anAsyncCallback (Some (0::nat)))
                     (CbSignal child startSignal :: (nat, nat) CallbackAction)))
             (CbSettle (Rejected (42::nat))))) \<and>
   CallbackState.canceled
     (fst (run callbackStep
             (fst (callbackStep (createCallbackBehavior anAsyncCallback (Some (0::nat)))
                     (CbSignal child stopSignal :: (nat, nat) CallbackAction)))
             [CbSignal child startSignal, CbRegistrar 3, CbSettle (Resolved (42::nat))])) \<and>
   \<not> PromiseState.canceled
     (fst (fst (promiseStep
             (fst (promiseStep (createPromiseBehavior aPromise (Some (0::nat)), None)
                     (PrSignal child startSignal :: (nat, nat) PromiseAction)))
             (PrSettle (Rejected (42::nat)))))) \<and>
   PromiseState.canceled
     (fst (fst (run promiseStep (createPromiseBehavior aPromise (Some (0::nat)), None)
             [PrSignal child startSignal, PrSignal child stopSignal,
              PrSettle (Resolved (42::nat))])))"
  using cancellation_flag_set_on_stop_or_callback_settlement
          [where cb = anAsyncCallback and p = "Some (0::nat)" and pr = aPromise
             and cs = "fst (callbackStep (createCallbackBehavior anAsyncCallback (Some (0::nat)))
                     (CbSignal child startSignal :: (nat, nat) CallbackAction))"
             and ca = "CbSettle (Rejected (42::nat))"
             and ps = "fst (fst (promiseStep (createPromiseBehavior aPromise (Some (0::nat)), None)
                     (PrSignal child startSignal :: (nat, nat) PromiseAction)))"
             and fr = "None :: (nat, nat) Frame option"
             and pa = "PrSettle (Rejected (42::nat))"
             and pas = "[PrSignal child startSignal, PrSignal child stopSignal,
                         PrSettle (Resolved (42::nat))]"]
        cancellation_flag_set_on_stop_or_callback_settlement
          [where cs = "fst (callbackStep (createCallbackBehavior anAsyncCallback (Some (0::nat)))
                     (CbSignal child stopSignal :: (nat, nat) CallbackAction))"
             and cas = "[CbSignal child startSignal, CbRegistrar 3, CbSettle (Resolved (42::nat))]"]
  by (simp add: createCallbackBehavior_def createPromiseBehavior_def callbackReceiveSignal_def
        callbackRejected_def callbackResolved_def callbackRegistrar_def setAdd_def
        promiseReceiveSignal_def promiseRejected_def promiseResolved_def anAsyncCallback_def
        aDeferred_def Let_def)

subsection \<open>Settlement\<close>




subsection \<open>Receivers of the callback behavior\<close>






subsection \<open>The machine behavior\<close>

lemma parentSend_not_update_doneInvoke:
  "filter isUpdateSend (parentSend q (toSCXMLEvent (doneInvoke src out) orig)) = []"
  by (cases q) (simp_all add: toSCXMLEvent_def)

lemma machineStep_unsynchronized:
  assumes "\<not> optionsSync (options s)" and "listeners s = []"
  shows "options (fst (machineStep s a)) = options s \<and>
         listeners (fst (machineStep s a)) = [] \<and>
         filter isUpdateSend (snd (machineStep s a)) = []"
proof (cases a)
  case (McSignal ctx signal)
  with assms show ?thesis
    by (cases signal)
       (auto simp: machineReceiveSignal_def Let_def split: option.splits)
next
  case (McReceive ctx event)
  with assms show ?thesis
    by (auto simp: machineReceive_def split: option.splits)
next
  case (McTransition state)
  with assms show ?thesis by simp
next
  case (McDone src out)
  have "filter isUpdateSend
          (concat (map (\<lambda>ctx. snd (machineDone s ctx (doneInvoke src out))) hooks)) = []" for hooks
    by (induction hooks) (simp_all add: machineDone_def parentSend_not_update_doneInvoke)
  with McDone assms show ?thesis by simp
qed

lemma machine_run_unsynchronized:
  "\<not> optionsSync (options s) \<Longrightarrow> listeners s = [] \<Longrightarrow>
     filter isUpdateSend (snd (run machineStep s as)) = []"
proof (induction as arbitrary: s)
  case Nil
  then show ?case by simp
next
  case (Cons a as)
  from machineStep_unsynchronized[OF Cons.prems, of a]
  have o: "\<not> optionsSync (options (fst (machineStep s a)))"
    and l: "listeners (fst (machineStep s a)) = []"
    and f: "filter isUpdateSend (snd (machineStep s a)) = []"
    using Cons.prems(1) by simp_all
  from Cons.IH[OF o l] f show ?case
    by (simp add: snd_run_Cons del: run.simps(2) machineStep.simps)
qed

text \<open>
  Claim C7. \<^verbatim>\<open>receiveSignal(start)\<close> of a machine behavior constructs the interpreter,
  registers the completion hook, with the sync option subscribes the listener, and only
  then starts the interpreter: \<^verbatim>\<open>start\<close> is the last call, after every registration. With
  the sync option a transition of the started interpreter is relayed to the parent as an
  \<^verbatim>\<open>update\<close> event; without it, whatever happens, the behavior sends no \<^verbatim>\<open>update\<close> event.
\<close>

theorem machine_start_registers_before_starting:
  fixes s :: "'r MachineState" and state :: 'v and as :: "('v, 'r) MachineAction list"
  assumes svc: "svc = Interpreter (machine s) (options s) (MachineState.parent s) (name ctx)"
  shows "(optionsSync (options s) \<longrightarrow>
            machineReceiveSignal s ctx startSignal =
              Inr (s\<lparr>MachineState.service := Some svc, doneHooks := doneHooks s @ [ctx],
                     MachineState.subscription := Some svc, listeners := listeners s @ [ctx]\<rparr>,
                   [Interpret svc, OnDone svc, Subscribe svc, Start svc :: ('v, 'r) Effect])) \<and>
         (\<not> optionsSync (options s) \<longrightarrow>
            machineReceiveSignal s ctx startSignal =
              Inr (s\<lparr>MachineState.service := Some svc, doneHooks := doneHooks s @ [ctx]\<rparr>,
                   [Interpret svc, OnDone svc, Start svc :: ('v, 'r) Effect])) \<and>
         (optionsSync os \<longrightarrow>
            snd (run machineStep (createMachineBehavior m (Some q) os)
                   [McSignal ctx startSignal, McTransition state]) =
              [Interpret (Interpreter m os (Some q) (name ctx)),
               OnDone (Interpreter m os (Some q) (name ctx)),
               Subscribe (Interpreter m os (Some q) (name ctx)),
               Start (Interpreter m os (Some q) (name ctx)),
               Send q (SCXMLEvent (update state) (Some (self ctx)))]) \<and>
         (\<not> optionsSync os \<longrightarrow>
            filter isUpdateSend (snd (run machineStep (createMachineBehavior m p os) as)) = [])"
proof -
  have a: "optionsSync (options s) \<longrightarrow>
            machineReceiveSignal s ctx startSignal =
              Inr (s\<lparr>MachineState.service := Some svc, doneHooks := doneHooks s @ [ctx],
                     MachineState.subscription := Some svc, listeners := listeners s @ [ctx]\<rparr>,
                   [Interpret svc, OnDone svc, Subscribe svc, Start svc :: ('v, 'r) Effect])"
    by (simp add: machineReceiveSignal_def svc Let_def)
  have b: "\<not> optionsSync (options s) \<longrightarrow>
            machineReceiveSignal s ctx startSignal =
              Inr (s\<lparr>MachineState.service := Some svc, doneHooks := doneHooks s @ [ctx]\<rparr>,
                   [Interpret svc, OnDone svc, Start svc :: ('v, 'r) Effect])"
    by (simp add: machineReceiveSignal_def svc Let_def)
  have c: "optionsSync os \<longrightarrow>
            snd (run machineStep (createMachineBehavior m (Some q) os)
                   [McSignal ctx startSignal, McTransition state]) =
              [Interpret (Interpreter m os (Some q) (name ctx)),
               OnDone (Interpreter m os (Some q) (name ctx)),
               Subscribe (Interpreter m os (Some q) (name ctx)),
               Start (Interpreter m os (Some q) (name ctx)),
               Send q (SCXMLEvent (update state) (Some (self ctx)))]"
    by (simp add: machineReceiveSignal_def createMachineBehavior_def machineListener_def
          toSCXMLEvent_def Let_def)
  have d: "\<not> optionsSync os \<longrightarrow>
            filter isUpdateSend (snd (run machineStep (createMachineBehavior m p os) as)) = []"
    using machine_run_unsynchronized[of "createMachineBehavior m p os" as]
    by (simp add: createMachineBehavior_def)
  show ?thesis by (intro conjI a b c d)
qed

theorem machine_start_registers_before_starting_witness:
  "snd (run machineStep (createMachineBehavior aMachine (Some (0::nat)) (Some \<lparr>sync = True\<rparr>))
          [McSignal child startSignal, McTransition (5::nat)])
   = [Interpret (Interpreter aMachine (Some \<lparr>sync = True\<rparr>) (Some 0) ''child''),
      OnDone (Interpreter aMachine (Some \<lparr>sync = True\<rparr>) (Some 0) ''child''),
      Subscribe (Interpreter aMachine (Some \<lparr>sync = True\<rparr>) (Some 0) ''child''),
      Start (Interpreter aMachine (Some \<lparr>sync = True\<rparr>) (Some 0) ''child''),
      Send 0 (SCXMLEvent (update 5) (Some 1))] \<and>
   filter isUpdateSend
     (snd (run machineStep (createMachineBehavior aMachine (Some (0::nat)) None)
             [McSignal child startSignal, McTransition (5::nat), McDone ''child'' (Some 6)]))
   = []"
  using machine_start_registers_before_starting
          [where os = "Some \<lparr>sync = True\<rparr>" and m = aMachine and q = "0::nat"
             and ctx = child and state = "5::nat", OF refl]
        machine_start_registers_before_starting
          [where os = None and m = aMachine and p = "Some (0::nat)"
             and as = "[McSignal child startSignal, McTransition (5::nat),
                        McDone ''child'' (Some 6)]", OF refl]
  by (simp add: child_def)

lemma machineStep_service:
  "\<not> isMcStart a \<Longrightarrow> MachineState.service (fst (machineStep s a)) = MachineState.service s"
  by (cases a)
     (auto simp: machineReceiveSignal_def machineReceive_def
           split: LifecycleSignal.splits option.splits)

lemma machine_run_service:
  "filter isMcStart as = [] \<Longrightarrow>
     MachineState.service (fst (run machineStep s as)) = MachineState.service s"
proof (induction as arbitrary: s)
  case Nil
  then show ?case by simp
next
  case (Cons a as)
  from Cons.prems have na: "\<not> isMcStart a" and nas: "filter isMcStart as = []"
    by (auto split: if_splits)
  from Cons.IH[OF nas, of "fst (machineStep s a)"] machineStep_service[OF na, of s]
  show ?case by (simp add: fst_run_Cons del: run.simps(2))
qed

text \<open>
  Claim C10. As long as a machine behavior has processed no \<^verbatim>\<open>receiveSignal(start)\<close>,
  \<^verbatim>\<open>service\<close> is unassigned: \<^verbatim>\<open>receive\<close> and \<^verbatim>\<open>receiveSignal(stop)\<close> dereference it and
  fail with a \<^verbatim>\<open>TypeError\<close>, while \<^verbatim>\<open>subscribe\<close> (\<^verbatim>\<open>service?.subscribe\<close>) makes no call,
  changes nothing and returns \<^verbatim>\<open>undefined\<close>.
\<close>

theorem machine_used_before_start:
  assumes "filter isMcStart as = []"
    and "s = fst (run machineStep (createMachineBehavior m p os) as)"
  shows "machineReceive s ctx event = Inl TypeError \<and>
         machineReceiveSignal s ctx stopSignal = Inl TypeError \<and>
         machineSubscribe s observer = Inr (s, [], None)"
proof -
  have "MachineState.service s = None"
    unfolding assms(2) using machine_run_service[OF assms(1)]
    by (simp add: createMachineBehavior_def)
  then show ?thesis
    by (simp add: machineReceive_def machineReceiveSignal_def machineSubscribe_def)
qed

theorem machine_used_before_start_witness:
  "filter isMcStart [McTransition (5::nat) :: (nat, nat) MachineAction] = [] \<and>
   machineReceive (createMachineBehavior aMachine (Some (0::nat)) None) child
     (Plain (Event (9::nat))) = Inl TypeError \<and>
   (machineReceiveSignal (createMachineBehavior aMachine (Some (0::nat)) None) child stopSignal
      :: JSError + nat MachineState \<times> (nat, nat) Effect list) = Inl TypeError \<and>
   (machineSubscribe (createMachineBehavior aMachine (Some (0::nat)) None) watcher
      :: JSError + nat MachineState \<times> (nat, nat) Effect list \<times> Unsubscribable option)
     = Inr (createMachineBehavior aMachine (Some 0) None, [], None)"
  using machine_used_before_start
          [OF _ refl, of "[McTransition (5::nat) :: (nat, nat) MachineAction]"
              aMachine "Some (0::nat)" None child "Plain (Event (9::nat))" watcher]
  by (simp add: createMachineBehavior_def)

subsection \<open>The service behavior\<close>





subsection \<open>The dispatch factory\<close>

text \<open>
  Claim C5. \<^verbatim>\<open>createBehaviorFrom\<close> probes its candidate in the order deferred value,
  stream, statechart definition, function, and returns the behavior of the first probe
  that answers yes; a candidate that is both promise-like and subscribable gets the
  promise behavior, not the observable behavior.
\<close>

theorem createBehaviorFrom_precedence:
  "(isPromiseLike entity \<longrightarrow>
      createBehaviorFrom entity p = Inr (PromiseBehavior (createPromiseBehavior entity p))) \<and>
   (\<not> isPromiseLike entity \<and> isObservable entity \<longrightarrow>
      createBehaviorFrom entity p = Inr (ObservableBehavior (createObservableBehavior entity p))) \<and>
   (\<not> isPromiseLike entity \<and> \<not> isObservable entity \<and> isMachineNode entity \<longrightarrow>
      createBehaviorFrom entity p = Inr (MachineBehavior (createMachineBehavior entity p None))) \<and>
   (\<not> isPromiseLike entity \<and> \<not> isObservable entity \<and> \<not> isMachineNode entity \<and>
    isFunction entity \<longrightarrow>
      createBehaviorFrom entity p = Inr (CallbackBehavior (createCallbackBehavior entity p))) \<and>
   (isPromiseLike entity \<and> isObservable entity \<longrightarrow>
      createBehaviorFrom entity p \<noteq> Inr (ObservableBehavior (createObservableBehavior entity p)))"
  by (simp add: createBehaviorFrom_def)

theorem createBehaviorFrom_precedence_witness:
  "isPromiseLike aThenableStream \<and> isObservable aThenableStream \<and>
   createBehaviorFrom aThenableStream (Some (0::nat)) =
     Inr (PromiseBehavior
            \<lparr>promise = aThenableStream, parent = Some 0, canceled = False, observers = [],
             thens = []\<rparr>)"
  using createBehaviorFrom_precedence [of aThenableStream "Some (0::nat)"]
  by (simp add: aThenableStream_def createPromiseBehavior_def)

text \<open>
  Claim C8. For a candidate that is not promise-like, not subscribable, not a statechart
  definition and not a function, \<^verbatim>\<open>createBehaviorFrom\<close> throws its error and returns no
  behavior.
\<close>

theorem createBehaviorFrom_unsupported:
  "\<not> isPromiseLike entity \<Longrightarrow> \<not> isObservable entity \<Longrightarrow> \<not> isMachineNode entity \<Longrightarrow>
   \<not> isFunction entity \<Longrightarrow>
     createBehaviorFrom entity p = Inl (Error ''Unable to create behavior from entity'') \<and>
     (\<forall>b. createBehaviorFrom entity p \<noteq> Inr b)"
  by (simp add: createBehaviorFrom_def)

theorem createBehaviorFrom_unsupported_witness:
  "\<not> isPromiseLike aNumber \<and> \<not> isObservable aNumber \<and> \<not> isMachineNode aNumber \<and>
   \<not> isFunction aNumber \<and>
   (createBehaviorFrom aNumber (Some (0::nat)) :: JSError + nat Behavior) =
     Inl (Error ''Unable to create behavior from entity'')"
  using createBehaviorFrom_unsupported [of aNumber "Some (0::nat)"]
  by (simp add: aNumber_def)

end
